theory Spec2Isabelle
  imports Main "HOL-Library.Word"
begin

section \<open>Bytes, integers and fixed-size arrays\<close>

type_synonym byte = "8 word"

text \<open>
  Little-endian decoding of a byte slice into an unsigned integer of any width. A slice
  shorter than the integer leaves the missing high bytes zero.
\<close>

fun le_word :: "byte list \<Rightarrow> 'a::len word" where
  "le_word [] = 0"
| "le_word (x # xs) = ucast x + 256 * le_word xs"

text \<open>
  Go's builtin \<open>copy(dst, src)\<close> on byte slices: the first \<open>min (len dst) (len src)\<close>
  bytes of \<open>dst\<close> are overwritten, the rest of \<open>dst\<close> stays.
\<close>

definition copy_bytes :: "byte list \<Rightarrow> byte list \<Rightarrow> byte list" where
  "copy_bytes dst src = take (length dst) src @ drop (length src) dst"

text \<open>A Go string is a sequence of bytes; \<open>string(bs)\<close> keeps every byte of the slice.\<close>

definition string_of :: "byte list \<Rightarrow> string" where
  "string_of bs = map (\<lambda>w. char_of (unat w)) bs"

section \<open>Constants of btrfs.go\<close>

definition DefaultBlockSize :: nat where
  "DefaultBlockSize = 2 ^ 12"

definition CSumSize :: nat where
  "CSumSize = 32"

text \<open>
  Modelled from the spec: the constant \<open>uuid.UUIDSize\<close> and the type \<open>uuid.UUID\<close> live in
  the package \<open>uuid\<close>, which is not among the sources. The spec calls identifiers
  "fixed 16-byte values"; a UUID is a list of 16 bytes here.
\<close>

definition UUIDSize :: nat where
  "UUIDSize = 16"

definition InodeItemKey :: "8 word" where "InodeItemKey = 1"
definition InodeRefKey :: "8 word" where "InodeRefKey = 12"
definition XAttrItemKey :: "8 word" where "XAttrItemKey = 24"
definition DirItemKey :: "8 word" where "DirItemKey = 84"
definition DirIndexKey :: "8 word" where "DirIndexKey = 96"
definition ExtentDataKey :: "8 word" where "ExtentDataKey = 108"
definition ExtentCSumKey :: "8 word" where "ExtentCSumKey = 128"
definition RootItemKey :: "8 word" where "RootItemKey = 132"
definition RootBackRefKey :: "8 word" where "RootBackRefKey = 144"
definition RootRefKey :: "8 word" where "RootRefKey = 156"
definition ExtentItemKey :: "8 word" where "ExtentItemKey = 168"
definition BlockGroupItemKey :: "8 word" where "BlockGroupItemKey = 192"

section \<open>The buffer cursor\<close>

text \<open>
  Modelled from the spec: the type \<open>ParseBuffer\<close> and its methods \<open>Next\<close>, \<open>NextUint8\<close>,
  \<open>NextUint16\<close>, \<open>NextUint32\<close>, \<open>NextUint64\<close>, \<open>Offset\<close>, \<open>Unread\<close> and \<open>SetOffset\<close> are used
  by btrfs.go and are not among the sources. The spec describes "a bounds-checked
  sequential reader over a byte slice exposing: read-and-advance of N raw bytes,
  fixed-width unsigned integer reads (8/16/32/64-bit, little-endian), current offset,
  remaining unread byte count, and absolute-seek (set offset)", whose reads past the end
  "return a zero-filled/truncated result" and never fault.

  The cursor is the slice and a position. \<open>Next n\<close> returns the bytes that exist among the
  next \<open>n\<close> (a truncated result) and moves past those it returned; an integer read decodes
  what \<open>Next\<close> returned, so missing bytes count as zero. \<open>SetOffset\<close> stores any position,
  also one past the end, where nothing is unread. Positions and counts are Go \<open>int\<close>s that
  are never negative here (64 bits wide, so no position of a slice overflows them): they
  are natural numbers.
\<close>

record ParseBuffer =
  buf :: "byte list"
  offset :: nat

definition Offset :: "ParseBuffer \<Rightarrow> nat" where
  "Offset b = offset b"

definition Unread :: "ParseBuffer \<Rightarrow> nat" where
  "Unread b = length (buf b) - offset b"

definition SetOffset :: "nat \<Rightarrow> ParseBuffer \<Rightarrow> ParseBuffer" where
  "SetOffset n b = b\<lparr>offset := n\<rparr>"

definition Next :: "nat \<Rightarrow> ParseBuffer \<Rightarrow> byte list \<times> ParseBuffer" where
  "Next n b =
    (let data = take n (drop (offset b) (buf b))
     in (data, b\<lparr>offset := offset b + length data\<rparr>))"

definition NextUint8 :: "ParseBuffer \<Rightarrow> 8 word \<times> ParseBuffer" where
  "NextUint8 b = (let (d, b) = Next 1 b in (le_word d, b))"

definition NextUint16 :: "ParseBuffer \<Rightarrow> 16 word \<times> ParseBuffer" where
  "NextUint16 b = (let (d, b) = Next 2 b in (le_word d, b))"

definition NextUint32 :: "ParseBuffer \<Rightarrow> 32 word \<times> ParseBuffer" where
  "NextUint32 b = (let (d, b) = Next 4 b in (le_word d, b))"

definition NextUint64 :: "ParseBuffer \<Rightarrow> 64 word \<times> ParseBuffer" where
  "NextUint64 b = (let (d, b) = Next 8 b in (le_word d, b))"

section \<open>Header and Key\<close>

text \<open>
  Every \<open>Parse\<close> method mutates its receiver and the cursor: the model takes both and
  returns both. Fields carry the name of their struct, since several structs share field
  names. \<open>CSum\<close> is \<open>[CSumSize]byte\<close>.
\<close>

record Header =
  Header_CSum :: "byte list"
  Header_FSID :: "byte list"
  Header_ByteNr :: "64 word"
  Header_Flags :: "64 word"
  Header_ChunkTreeUUID :: "byte list"
  Header_Generation :: "64 word"
  Header_Owner :: "64 word"
  Header_NrItems :: "32 word"
  Header_Level :: "8 word"

definition zero_Header :: Header where
  "zero_Header =
    \<lparr>Header_CSum = replicate CSumSize 0, Header_FSID = replicate UUIDSize 0,
     Header_ByteNr = 0, Header_Flags = 0, Header_ChunkTreeUUID = replicate UUIDSize 0,
     Header_Generation = 0, Header_Owner = 0, Header_NrItems = 0, Header_Level = 0\<rparr>"

definition Header_Parse :: "Header \<Rightarrow> ParseBuffer \<Rightarrow> Header \<times> ParseBuffer" where
  "Header_Parse h b =
    (let (d, b) = Next CSumSize b; h = h\<lparr>Header_CSum := copy_bytes (Header_CSum h) d\<rparr>;
         (d, b) = Next UUIDSize b; h = h\<lparr>Header_FSID := copy_bytes (Header_FSID h) d\<rparr>;
         (v, b) = NextUint64 b; h = h\<lparr>Header_ByteNr := v\<rparr>;
         (v, b) = NextUint64 b; h = h\<lparr>Header_Flags := v\<rparr>;
         (d, b) = Next UUIDSize b;
         h = h\<lparr>Header_ChunkTreeUUID := copy_bytes (Header_ChunkTreeUUID h) d\<rparr>;
         (v, b) = NextUint64 b; h = h\<lparr>Header_Generation := v\<rparr>;
         (v, b) = NextUint64 b; h = h\<lparr>Header_Owner := v\<rparr>;
         (v, b) = NextUint32 b; h = h\<lparr>Header_NrItems := v\<rparr>;
         (v, b) = NextUint8 b; h = h\<lparr>Header_Level := v\<rparr>
     in (h, b))"

definition IsLeaf :: "Header \<Rightarrow> bool" where
  "IsLeaf h = (Header_Level h = 0)"

record Key =
  Key_ObjectId :: "64 word"
  Key_Type :: "8 word"
  Key_Offset :: "64 word"

definition zero_Key :: Key where
  "zero_Key = \<lparr>Key_ObjectId = 0, Key_Type = 0, Key_Offset = 0\<rparr>"

definition Key_Parse :: "Key \<Rightarrow> ParseBuffer \<Rightarrow> Key \<times> ParseBuffer" where
  "Key_Parse k b =
    (let (v, b) = NextUint64 b; k = k\<lparr>Key_ObjectId := v\<rparr>;
         (v, b) = NextUint8 b; k = k\<lparr>Key_Type := v\<rparr>;
         (v, b) = NextUint64 b; k = k\<lparr>Key_Offset := v\<rparr>
     in (k, b))"

section \<open>Payload variants\<close>

text \<open>
  \<open>time.Time\<close> belongs to Go's standard library. Its zero value and the result of
  \<open>time.Unix(sec, nsec)\<close> are kept as what made them; both arguments are \<open>int64\<close>.
\<close>

datatype Time = Time_zero | Time_Unix "64 word" "64 word"

record InodeItem =
  InodeItem_Generation :: "64 word"
  InodeItem_Transid :: "64 word"
  InodeItem_Size :: "64 word"
  InodeItem_Nbytes :: "64 word"
  InodeItem_BlockGroup :: "64 word"
  InodeItem_Nlink :: "32 word"
  InodeItem_Uid :: "32 word"
  InodeItem_Gid :: "32 word"
  InodeItem_Mode :: "32 word"
  InodeItem_Rdev :: "64 word"
  InodeItem_Flags :: "64 word"
  InodeItem_Sequence :: "64 word"
  InodeItem_reserved :: "64 word list"
  InodeItem_Atime :: Time
  InodeItem_Ctime :: Time
  InodeItem_Mtime :: Time
  InodeItem_Otime :: Time

definition zero_InodeItem :: InodeItem where
  "zero_InodeItem =
    \<lparr>InodeItem_Generation = 0, InodeItem_Transid = 0, InodeItem_Size = 0,
     InodeItem_Nbytes = 0, InodeItem_BlockGroup = 0, InodeItem_Nlink = 0, InodeItem_Uid = 0,
     InodeItem_Gid = 0, InodeItem_Mode = 0, InodeItem_Rdev = 0, InodeItem_Flags = 0,
     InodeItem_Sequence = 0, InodeItem_reserved = replicate 4 0, InodeItem_Atime = Time_zero,
     InodeItem_Ctime = Time_zero, InodeItem_Mtime = Time_zero, InodeItem_Otime = Time_zero\<rparr>"

text \<open>
  Go evaluates the arguments of \<open>time.Unix(int64(b.NextUint64()), int64(b.NextUint32()))\<close>
  from left to right: eight bytes of seconds, then four of nanoseconds.
\<close>

definition NextTime :: "ParseBuffer \<Rightarrow> Time \<times> ParseBuffer" where
  "NextTime b =
    (let (s, b) = NextUint64 b; (n, b) = NextUint32 b in (Time_Unix s (ucast n), b))"

definition InodeItem_Parse :: "InodeItem \<Rightarrow> ParseBuffer \<Rightarrow> InodeItem \<times> ParseBuffer" where
  "InodeItem_Parse i b =
    (let (v, b) = NextUint64 b; i = i\<lparr>InodeItem_Generation := v\<rparr>;
         (v, b) = NextUint64 b; i = i\<lparr>InodeItem_Transid := v\<rparr>;
         (v, b) = NextUint64 b; i = i\<lparr>InodeItem_Size := v\<rparr>;
         (v, b) = NextUint64 b; i = i\<lparr>InodeItem_Nbytes := v\<rparr>;
         (v, b) = NextUint64 b; i = i\<lparr>InodeItem_BlockGroup := v\<rparr>;
         (v, b) = NextUint32 b; i = i\<lparr>InodeItem_Nlink := v\<rparr>;
         (v, b) = NextUint32 b; i = i\<lparr>InodeItem_Uid := v\<rparr>;
         (v, b) = NextUint32 b; i = i\<lparr>InodeItem_Gid := v\<rparr>;
         (v, b) = NextUint32 b; i = i\<lparr>InodeItem_Mode := v\<rparr>;
         (v, b) = NextUint64 b; i = i\<lparr>InodeItem_Rdev := v\<rparr>;
         (v, b) = NextUint64 b; i = i\<lparr>InodeItem_Flags := v\<rparr>;
         (v, b) = NextUint64 b; i = i\<lparr>InodeItem_Sequence := v\<rparr>;
         (d, b) = Next (4 * 8) b;
         (t, b) = NextTime b; i = i\<lparr>InodeItem_Atime := t\<rparr>;
         (t, b) = NextTime b; i = i\<lparr>InodeItem_Ctime := t\<rparr>;
         (t, b) = NextTime b; i = i\<lparr>InodeItem_Mtime := t\<rparr>;
         (t, b) = NextTime b; i = i\<lparr>InodeItem_Otime := t\<rparr>
     in (i, b))"

record InodeRefItem =
  InodeRefItem_Index :: "64 word"
  InodeRefItem_NameLen :: "16 word"
  InodeRefItem_Name :: string

definition zero_InodeRefItem :: InodeRefItem where
  "zero_InodeRefItem =
    \<lparr>InodeRefItem_Index = 0, InodeRefItem_NameLen = 0, InodeRefItem_Name = []\<rparr>"

definition InodeRefItem_Parse ::
  "InodeRefItem \<Rightarrow> ParseBuffer \<Rightarrow> InodeRefItem \<times> ParseBuffer" where
  "InodeRefItem_Parse i b =
    (let (v, b) = NextUint64 b; i = i\<lparr>InodeRefItem_Index := v\<rparr>;
         (v, b) = NextUint16 b; i = i\<lparr>InodeRefItem_NameLen := v\<rparr>;
         l = unat (InodeRefItem_NameLen i);
         l = (if l > 255 then 255 else l);
         (d, b) = Next l b; i = i\<lparr>InodeRefItem_Name := string_of d\<rparr>
     in (i, b))"

record DirItem =
  DirItem_Location :: Key
  DirItem_TransId :: "64 word"
  DirItem_DataLen :: "16 word"
  DirItem_NameLen :: "16 word"
  DirItem_Type :: "8 word"
  DirItem_Name :: string
  DirItem_Data :: string

definition zero_DirItem :: DirItem where
  "zero_DirItem =
    \<lparr>DirItem_Location = zero_Key, DirItem_TransId = 0, DirItem_DataLen = 0,
     DirItem_NameLen = 0, DirItem_Type = 0, DirItem_Name = [], DirItem_Data = []\<rparr>"

definition DirItem_Parse :: "DirItem \<Rightarrow> ParseBuffer \<Rightarrow> DirItem \<times> ParseBuffer" where
  "DirItem_Parse i b =
    (let (k, b) = Key_Parse (DirItem_Location i) b; i = i\<lparr>DirItem_Location := k\<rparr>;
         (v, b) = NextUint64 b; i = i\<lparr>DirItem_TransId := v\<rparr>;
         (v, b) = NextUint16 b; i = i\<lparr>DirItem_DataLen := v\<rparr>;
         (v, b) = NextUint16 b; i = i\<lparr>DirItem_NameLen := v\<rparr>;
         (v, b) = NextUint8 b; i = i\<lparr>DirItem_Type := v\<rparr>;
         l = unat (DirItem_NameLen i);
         l = (if l > 255 then 255 else l);
         (d, b) = Next l b; i = i\<lparr>DirItem_Name := string_of d\<rparr>;
         l = unat (DirItem_DataLen i);
         l = (if l > DefaultBlockSize then DefaultBlockSize else l);
         (d, b) = Next l b; i = i\<lparr>DirItem_Data := string_of d\<rparr>
     in (i, b))"

record BlockGroupItem =
  BlockGroupItem_Used :: "64 word"
  BlockGroupItem_ChunkObjectId :: "64 word"
  BlockGroupItem_Flags :: "64 word"

definition zero_BlockGroupItem :: BlockGroupItem where
  "zero_BlockGroupItem =
    \<lparr>BlockGroupItem_Used = 0, BlockGroupItem_ChunkObjectId = 0, BlockGroupItem_Flags = 0\<rparr>"

definition BlockGroupItem_Parse ::
  "BlockGroupItem \<Rightarrow> ParseBuffer \<Rightarrow> BlockGroupItem \<times> ParseBuffer" where
  "BlockGroupItem_Parse i b =
    (let (v, b) = NextUint64 b; i = i\<lparr>BlockGroupItem_Used := v\<rparr>;
         (v, b) = NextUint64 b; i = i\<lparr>BlockGroupItem_ChunkObjectId := v\<rparr>;
         (v, b) = NextUint64 b; i = i\<lparr>BlockGroupItem_Flags := v\<rparr>
     in (i, b))"

record FileExtentItem =
  FileExtentItem_Generation :: "64 word"
  FileExtentItem_RamBytes :: "64 word"
  FileExtentItem_Compression :: "8 word"
  FileExtentItem_Encryption :: "8 word"
  FileExtentItem_OtherEncoding :: "16 word"
  FileExtentItem_Type :: "8 word"
  FileExtentItem_DiskByteNr :: "64 word"
  FileExtentItem_DiskNumBytes :: "64 word"
  FileExtentItem_Offset :: "64 word"
  FileExtentItem_NumBytes :: "64 word"

definition zero_FileExtentItem :: FileExtentItem where
  "zero_FileExtentItem =
    \<lparr>FileExtentItem_Generation = 0, FileExtentItem_RamBytes = 0,
     FileExtentItem_Compression = 0, FileExtentItem_Encryption = 0,
     FileExtentItem_OtherEncoding = 0, FileExtentItem_Type = 0, FileExtentItem_DiskByteNr = 0,
     FileExtentItem_DiskNumBytes = 0, FileExtentItem_Offset = 0, FileExtentItem_NumBytes = 0\<rparr>"

definition FileExtentItem_Parse ::
  "FileExtentItem \<Rightarrow> ParseBuffer \<Rightarrow> FileExtentItem \<times> ParseBuffer" where
  "FileExtentItem_Parse i b =
    (let (v, b) = NextUint64 b; i = i\<lparr>FileExtentItem_Generation := v\<rparr>;
         (v, b) = NextUint64 b; i = i\<lparr>FileExtentItem_RamBytes := v\<rparr>;
         (v, b) = NextUint8 b; i = i\<lparr>FileExtentItem_Compression := v\<rparr>;
         (v, b) = NextUint8 b; i = i\<lparr>FileExtentItem_Encryption := v\<rparr>;
         (v, b) = NextUint16 b; i = i\<lparr>FileExtentItem_OtherEncoding := v\<rparr>;
         (v, b) = NextUint8 b; i = i\<lparr>FileExtentItem_Type := v\<rparr>;
         (v, b) = NextUint64 b; i = i\<lparr>FileExtentItem_DiskByteNr := v\<rparr>;
         (v, b) = NextUint64 b; i = i\<lparr>FileExtentItem_DiskNumBytes := v\<rparr>;
         (v, b) = NextUint64 b; i = i\<lparr>FileExtentItem_Offset := v\<rparr>;
         (v, b) = NextUint64 b; i = i\<lparr>FileExtentItem_NumBytes := v\<rparr>
     in (i, b))"

record CSumItem =
  CSumItem_CSum :: "8 word"

definition zero_CSumItem :: CSumItem where
  "zero_CSumItem = \<lparr>CSumItem_CSum = 0\<rparr>"

definition CSumItem_Parse :: "CSumItem \<Rightarrow> ParseBuffer \<Rightarrow> CSumItem \<times> ParseBuffer" where
  "CSumItem_Parse i b = (let (v, b) = NextUint8 b; i = i\<lparr>CSumItem_CSum := v\<rparr> in (i, b))"

text \<open>
  \<open>Reserved\<close> is \<open>[8]uint64\<close>: the loop \<open>for j, _ := range i.Reserved\<close> runs eight times
  and overwrites every element, so the field becomes the eight values read.
\<close>

fun NextUint64s :: "nat \<Rightarrow> ParseBuffer \<Rightarrow> 64 word list \<times> ParseBuffer" where
  "NextUint64s 0 b = ([], b)"
| "NextUint64s (Suc n) b =
    (let (v, b) = NextUint64 b; (vs, b) = NextUint64s n b in (v # vs, b))"

record RootItem =
  RootItem_Inode :: InodeItem
  RootItem_Generation :: "64 word"
  RootItem_RootDirId :: "64 word"
  RootItem_ByteNr :: "64 word"
  RootItem_ByteLimit :: "64 word"
  RootItem_BytesUsed :: "64 word"
  RootItem_LastSnapshot :: "64 word"
  RootItem_Flags :: "64 word"
  RootItem_Refs :: "32 word"
  RootItem_DropProgress :: Key
  RootItem_DropLevel :: "8 word"
  RootItem_Level :: "8 word"
  RootItem_GenerationV2 :: "64 word"
  RootItem_UUID :: "byte list"
  RootItem_ParentUUID :: "byte list"
  RootItem_ReceivedUUID :: "byte list"
  RootItem_CTransId :: "64 word"
  RootItem_OTransId :: "64 word"
  RootItem_STransId :: "64 word"
  RootItem_RTransId :: "64 word"
  RootItem_Reserved :: "64 word list"

definition zero_RootItem :: RootItem where
  "zero_RootItem =
    \<lparr>RootItem_Inode = zero_InodeItem, RootItem_Generation = 0, RootItem_RootDirId = 0,
     RootItem_ByteNr = 0, RootItem_ByteLimit = 0, RootItem_BytesUsed = 0,
     RootItem_LastSnapshot = 0, RootItem_Flags = 0, RootItem_Refs = 0,
     RootItem_DropProgress = zero_Key, RootItem_DropLevel = 0, RootItem_Level = 0,
     RootItem_GenerationV2 = 0, RootItem_UUID = replicate UUIDSize 0,
     RootItem_ParentUUID = replicate UUIDSize 0, RootItem_ReceivedUUID = replicate UUIDSize 0,
     RootItem_CTransId = 0, RootItem_OTransId = 0, RootItem_STransId = 0,
     RootItem_RTransId = 0, RootItem_Reserved = replicate 8 0\<rparr>"

definition RootItem_Parse :: "RootItem \<Rightarrow> ParseBuffer \<Rightarrow> RootItem \<times> ParseBuffer" where
  "RootItem_Parse i b =
    (let (n, b) = InodeItem_Parse (RootItem_Inode i) b; i = i\<lparr>RootItem_Inode := n\<rparr>;
         (v, b) = NextUint64 b; i = i\<lparr>RootItem_Generation := v\<rparr>;
         (v, b) = NextUint64 b; i = i\<lparr>RootItem_RootDirId := v\<rparr>;
         (v, b) = NextUint64 b; i = i\<lparr>RootItem_ByteNr := v\<rparr>;
         (v, b) = NextUint64 b; i = i\<lparr>RootItem_ByteLimit := v\<rparr>;
         (v, b) = NextUint64 b; i = i\<lparr>RootItem_LastSnapshot := v\<rparr>;
         (v, b) = NextUint64 b; i = i\<lparr>RootItem_Flags := v\<rparr>;
         (v, b) = NextUint32 b; i = i\<lparr>RootItem_Refs := v\<rparr>;
         (k, b) = Key_Parse (RootItem_DropProgress i) b; i = i\<lparr>RootItem_DropProgress := k\<rparr>;
         (v, b) = NextUint8 b; i = i\<lparr>RootItem_DropLevel := v\<rparr>;
         (v, b) = NextUint8 b; i = i\<lparr>RootItem_Level := v\<rparr>;
         (v, b) = NextUint64 b; i = i\<lparr>RootItem_GenerationV2 := v\<rparr>
     in if RootItem_Generation i = RootItem_GenerationV2 i then
          (let (d, b) = Next UUIDSize b;
               i = i\<lparr>RootItem_UUID := copy_bytes (RootItem_UUID i) d\<rparr>;
               (d, b) = Next UUIDSize b;
               i = i\<lparr>RootItem_ParentUUID := copy_bytes (RootItem_ParentUUID i) d\<rparr>;
               (d, b) = Next UUIDSize b;
               i = i\<lparr>RootItem_ReceivedUUID := copy_bytes (RootItem_ReceivedUUID i) d\<rparr>;
               (v, b) = NextUint64 b; i = i\<lparr>RootItem_CTransId := v\<rparr>;
               (v, b) = NextUint64 b; i = i\<lparr>RootItem_OTransId := v\<rparr>;
               (v, b) = NextUint64 b; i = i\<lparr>RootItem_STransId := v\<rparr>;
               (v, b) = NextUint64 b; i = i\<lparr>RootItem_RTransId := v\<rparr>;
               (vs, b) = NextUint64s 8 b; i = i\<lparr>RootItem_Reserved := vs\<rparr>
           in (i, b))
        else (i, b))"

record RootRef =
  RootRef_DirId :: "64 word"
  RootRef_Sequence :: "64 word"
  RootRef_NameLen :: "16 word"
  RootRef_Name :: string

definition zero_RootRef :: RootRef where
  "zero_RootRef =
    \<lparr>RootRef_DirId = 0, RootRef_Sequence = 0, RootRef_NameLen = 0, RootRef_Name = []\<rparr>"

definition RootRef_Parse :: "RootRef \<Rightarrow> ParseBuffer \<Rightarrow> RootRef \<times> ParseBuffer" where
  "RootRef_Parse i b =
    (let (v, b) = NextUint64 b; i = i\<lparr>RootRef_DirId := v\<rparr>;
         (v, b) = NextUint64 b; i = i\<lparr>RootRef_Sequence := v\<rparr>;
         (v, b) = NextUint16 b; i = i\<lparr>RootRef_NameLen := v\<rparr>;
         l = unat (RootRef_NameLen i);
         l = (if l > 255 then 255 else l);
         (d, b) = Next l b; i = i\<lparr>RootRef_Name := string_of d\<rparr>
     in (i, b))"

record ExtentItem =
  ExtentItem_Refs :: "64 word"
  ExtentItem_Generation :: "64 word"
  ExtentItem_Flags :: "64 word"

definition zero_ExtentItem :: ExtentItem where
  "zero_ExtentItem = \<lparr>ExtentItem_Refs = 0, ExtentItem_Generation = 0, ExtentItem_Flags = 0\<rparr>"

definition ExtentItem_Parse :: "ExtentItem \<Rightarrow> ParseBuffer \<Rightarrow> ExtentItem \<times> ParseBuffer" where
  "ExtentItem_Parse i b =
    (let (v, b) = NextUint64 b; i = i\<lparr>ExtentItem_Refs := v\<rparr>;
         (v, b) = NextUint64 b; i = i\<lparr>ExtentItem_Generation := v\<rparr>;
         (v, b) = NextUint64 b; i = i\<lparr>ExtentItem_Flags := v\<rparr>
     in (i, b))"

section \<open>Item and payload dispatch\<close>

text \<open>
  The interface \<open>itemData\<close> holds a pointer to one of the payload structs, or nil: a
  datatype with one constructor for each struct that \<open>ParseData\<close> can store, under an
  option.
\<close>

datatype itemData =
  Data_InodeItem InodeItem
| Data_InodeRefItem InodeRefItem
| Data_DirItem DirItem
| Data_FileExtentItem FileExtentItem
| Data_CSumItem CSumItem
| Data_RootItem RootItem
| Data_RootRef RootRef
| Data_ExtentItem ExtentItem
| Data_BlockGroupItem BlockGroupItem

record Item =
  Item_Key :: Key
  Item_Offset :: "32 word"
  Item_Size :: "32 word"
  Item_Data :: "itemData option"

definition zero_Item :: Item where
  "zero_Item = \<lparr>Item_Key = zero_Key, Item_Offset = 0, Item_Size = 0, Item_Data = None\<rparr>"

definition Item_Parse :: "Item \<Rightarrow> ParseBuffer \<Rightarrow> Item \<times> ParseBuffer" where
  "Item_Parse i b =
    (let (k, b) = Key_Parse (Item_Key i) b; i = i\<lparr>Item_Key := k\<rparr>;
         (v, b) = NextUint32 b; i = i\<lparr>Item_Offset := v\<rparr>;
         (v, b) = NextUint32 b; i = i\<lparr>Item_Size := v\<rparr>
     in (i, b))"

text \<open>
  The switch on \<open>i.Type\<close> (the embedded key's type): each case stores a fresh zero struct in
  \<open>i.Data\<close>, the default case returns at once, and after the switch the stored struct is
  parsed in place.
\<close>

definition Item_ParseData :: "Item \<Rightarrow> ParseBuffer \<Rightarrow> Item \<times> ParseBuffer" where
  "Item_ParseData i b =
    (let t = Key_Type (Item_Key i) in
     if t = InodeItemKey then
       (let (d, b) = InodeItem_Parse zero_InodeItem b
        in (i\<lparr>Item_Data := Some (Data_InodeItem d)\<rparr>, b))
     else if t = InodeRefKey then
       (let (d, b) = InodeRefItem_Parse zero_InodeRefItem b
        in (i\<lparr>Item_Data := Some (Data_InodeRefItem d)\<rparr>, b))
     else if t = XAttrItemKey \<or> t = DirItemKey \<or> t = DirIndexKey then
       (let (d, b) = DirItem_Parse zero_DirItem b
        in (i\<lparr>Item_Data := Some (Data_DirItem d)\<rparr>, b))
     else if t = ExtentDataKey then
       (let (d, b) = FileExtentItem_Parse zero_FileExtentItem b
        in (i\<lparr>Item_Data := Some (Data_FileExtentItem d)\<rparr>, b))
     else if t = ExtentCSumKey then
       (let (d, b) = CSumItem_Parse zero_CSumItem b
        in (i\<lparr>Item_Data := Some (Data_CSumItem d)\<rparr>, b))
     else if t = RootItemKey then
       (let (d, b) = RootItem_Parse zero_RootItem b
        in (i\<lparr>Item_Data := Some (Data_RootItem d)\<rparr>, b))
     else if t = RootBackRefKey \<or> t = RootRefKey then
       (let (d, b) = RootRef_Parse zero_RootRef b
        in (i\<lparr>Item_Data := Some (Data_RootRef d)\<rparr>, b))
     else if t = ExtentItemKey then
       (let (d, b) = ExtentItem_Parse zero_ExtentItem b
        in (i\<lparr>Item_Data := Some (Data_ExtentItem d)\<rparr>, b))
     else if t = BlockGroupItemKey then
       (let (d, b) = BlockGroupItem_Parse zero_BlockGroupItem b
        in (i\<lparr>Item_Data := Some (Data_BlockGroupItem d)\<rparr>, b))
     else (i, b))"

text \<open>The case labels of the switch: the type tags that have a payload decoder.\<close>

definition dispatch_tags :: "8 word list" where
  "dispatch_tags =
    [InodeItemKey, InodeRefKey, XAttrItemKey, DirItemKey, DirIndexKey, ExtentDataKey,
     ExtentCSumKey, RootItemKey, RootBackRefKey, RootRefKey, ExtentItemKey, BlockGroupItemKey]"

section \<open>Leaf\<close>

record Leaf =
  Leaf_Header :: Header
  Leaf_Items :: "Item list"

definition zero_Leaf :: Leaf where
  "zero_Leaf = \<lparr>Leaf_Header = zero_Header, Leaf_Items = []\<rparr>"

text \<open>The first loop of \<open>Leaf.Parse\<close>: every element of the slice parses itself in turn.\<close>

fun parse_items :: "Item list \<Rightarrow> ParseBuffer \<Rightarrow> Item list \<times> ParseBuffer" where
  "parse_items [] b = ([], b)"
| "parse_items (i # is) b =
    (let (i, b) = Item_Parse i b; (is, b) = parse_items is b in (i # is, b))"

text \<open>
  The second loop: for every element the cursor is set to \<open>int(headerEnd + item.Offset)\<close>,
  a sum of two \<open>uint32\<close>, and the element's payload is parsed there.
\<close>

fun parse_items_data :: "32 word \<Rightarrow> Item list \<Rightarrow> ParseBuffer \<Rightarrow> Item list \<times> ParseBuffer" where
  "parse_items_data headerEnd [] b = ([], b)"
| "parse_items_data headerEnd (item # is) b =
    (let b = SetOffset (unat (headerEnd + Item_Offset item)) b;
         (item, b) = Item_ParseData item b;
         (is, b) = parse_items_data headerEnd is b
     in (item # is, b))"

text \<open>
  \<open>Leaf.Parse\<close> works on the header its receiver already holds; it reads nothing of the
  header from the cursor. \<open>make([]Item, numItems)\<close> is a slice of zero items.
\<close>

definition Leaf_Parse :: "Leaf \<Rightarrow> ParseBuffer \<Rightarrow> Leaf \<times> ParseBuffer" where
  "Leaf_Parse l b =
    (if Header_NrItems (Leaf_Header l) = 0 then (l, b)
     else
       (let headerEnd = (of_nat (Offset b) :: 32 word);
            maxItems = Unread b div 0x19;
            numItems = Header_NrItems (Leaf_Header l);
            numItems = (if numItems > (of_nat maxItems :: 32 word) then of_nat maxItems
                        else numItems);
            l = l\<lparr>Leaf_Items := replicate (unat numItems) zero_Item\<rparr>;
            (is, b) = parse_items (Leaf_Items l) b;
            l = l\<lparr>Leaf_Items := is\<rparr>;
            (is, b) = parse_items_data headerEnd (Leaf_Items l) b;
            l = l\<lparr>Leaf_Items := is\<rparr>
        in (l, b)))"

section \<open>Positions and bytes relative to a cursor\<close>

text \<open>
  Two notions for stating where a read happens. \<open>advanced b k\<close> is the cursor \<open>b\<close> after
  sequential reads that asked for \<open>k\<close> bytes in all: it has moved by \<open>k\<close>, or to the end of
  the slice when fewer than \<open>k\<close> bytes were unread. \<open>peek b k n\<close> is the bytes that exist among
  the \<open>n\<close> bytes that start \<open>k\<close> bytes after the position of \<open>b\<close>.
\<close>

definition advanced :: "ParseBuffer \<Rightarrow> nat \<Rightarrow> ParseBuffer" where
  "advanced b k = b\<lparr>offset := offset b + min k (Unread b)\<rparr>"

definition peek :: "ParseBuffer \<Rightarrow> nat \<Rightarrow> nat \<Rightarrow> byte list" where
  "peek b k n = take n (drop (offset b + k) (buf b))"

section \<open>Example inputs\<close>

text \<open>
  A leaf whose header, decoded beforehand, declares one item, and one that declares two.
\<close>

definition one_item_leaf :: Leaf where
  "one_item_leaf = zero_Leaf\<lparr>Leaf_Header := zero_Header\<lparr>Header_NrItems := 1\<rparr>\<rparr>"

definition two_item_leaf :: Leaf where
  "two_item_leaf = zero_Leaf\<lparr>Leaf_Header := zero_Header\<lparr>Header_NrItems := 2\<rparr>\<rparr>"

text \<open>
  A cursor at the start of 25 bytes: one descriptor with type tag 128 (extent checksum),
  data offset 1000 and data size 1. Its payload would start 975 bytes past the end.
\<close>

definition past_end_cursor :: ParseBuffer where
  "past_end_cursor =
    \<lparr>buf = [0, 0, 0, 0, 0, 0, 0, 0, 128, 0, 0, 0, 0, 0, 0, 0, 0, 0xE8, 3, 0, 0, 1, 0, 0, 0],
     offset = 0\<rparr>"

text \<open>
  A cursor at the start of a block: 101 bytes of header whose item count (bytes 96 to 99)
  is 1, then one descriptor with type tag 128, data offset 25 and data size 1, then the
  payload byte 9.
\<close>

definition header_block :: ParseBuffer where
  "header_block =
    \<lparr>buf = replicate 96 0 @ [1, 0, 0, 0, 0] @
       [0, 0, 0, 0, 0, 0, 0, 0, 128, 0, 0, 0, 0, 0, 0, 0, 0, 25, 0, 0, 0, 1, 0, 0, 0] @ [9],
     offset = 0\<rparr>"

text \<open>
  A cursor after the header (position 101) of a block whose level byte (position 100) is 7;
  the descriptor has type tag 128, data offset \<open>0xFFFFFFFF\<close> and data size 1.
\<close>

definition wrap_cursor :: ParseBuffer where
  "wrap_cursor =
    \<lparr>buf = replicate 96 0 @ [1, 0, 0, 0, 7] @
       [0, 0, 0, 0, 0, 0, 0, 0, 128, 0, 0, 0, 0, 0, 0, 0, 0, 0xFF, 0xFF, 0xFF, 0xFF,
        1, 0, 0, 0],
     offset = 101\<rparr>"

text \<open>
  A cursor at the start of two descriptors and one payload byte. The first descriptor has
  type tag 13 (\<open>InodeExtrefKey\<close>, which the switch of \<open>ParseData\<close> does not list), the
  second has type tag 128; both have data offset 50 and data size 1. The payload byte is 9.
\<close>

definition two_item_cursor :: ParseBuffer where
  "two_item_cursor =
    \<lparr>buf = [0, 0, 0, 0, 0, 0, 0, 0, 13, 0, 0, 0, 0, 0, 0, 0, 0, 50, 0, 0, 0, 1, 0, 0, 0] @
       [0, 0, 0, 0, 0, 0, 0, 0, 128, 0, 0, 0, 0, 0, 0, 0, 0, 50, 0, 0, 0, 1, 0, 0, 0] @ [9],
     offset = 0\<rparr>"

text \<open>A cursor at the start of a slice of \<open>25 * 2 ^ 32\<close> zero bytes.\<close>

definition huge_buffer :: ParseBuffer where
  "huge_buffer = \<lparr>buf = replicate (25 * 2 ^ 32) 0, offset = 0\<rparr>"

text \<open>
  A cursor at the start of a root item of 383 bytes, all zero but byte 192: on disk the
  eight bytes from 192 are the field \<open>bytes_used\<close>, here 42.
\<close>

definition root_item_payload :: ParseBuffer where
  "root_item_payload = \<lparr>buf = replicate 192 0 @ [42] @ replicate 190 0, offset = 0\<rparr>"

text \<open>
  A cursor at the start of a root item of 391 bytes, laid out in the order in which the
  struct \<open>RootItem\<close> declares its fields: the inode item (bytes 0 to 159), generation (160),
  root directory id (168), tree address (176), byte limit (184), bytes used (192), last
  snapshot (200), flags (208), reference count (216), drop progress (220), drop level (237),
  level (238), second generation (239), then the three UUIDs from 247. Both generations
  are 1 and the first byte of the UUID is 5; every other byte is 0.
\<close>

definition equal_generations_payload :: ParseBuffer where
  "equal_generations_payload =
    \<lparr>buf = replicate 160 0 @ [1] @ replicate 78 0 @ [1] @ replicate 7 0 @ [5] @
       replicate 143 0,
     offset = 0\<rparr>"

section \<open>Sequential reads, in closed form\<close>

lemma advanced_0: "advanced b 0 = b"
  by (simp add: advanced_def)

lemma buf_advanced: "buf (advanced b k) = buf b"
  by (simp add: advanced_def)

lemma offset_advanced: "offset (advanced b k) = offset b + min k (Unread b)"
  by (simp add: advanced_def)

lemma Next_advanced: "Next n (advanced b k) = (peek b k n, advanced b (k + n))"
proof (cases "offset b + k \<le> length (buf b)")
  case True
  then show ?thesis
    by (auto simp: Next_def advanced_def peek_def Unread_def Let_def min_def)
next
  case False
  then show ?thesis
    by (auto simp: Next_def advanced_def peek_def Unread_def Let_def min_def)
qed

lemma NextUint8_advanced:
  "NextUint8 (advanced b k) = (le_word (peek b k 1), advanced b (k + 1))"
  by (simp add: NextUint8_def Next_advanced)

lemma NextUint16_advanced:
  "NextUint16 (advanced b k) = (le_word (peek b k 2), advanced b (k + 2))"
  by (simp add: NextUint16_def Next_advanced)

lemma NextUint32_advanced:
  "NextUint32 (advanced b k) = (le_word (peek b k 4), advanced b (k + 4))"
  by (simp add: NextUint32_def Next_advanced)

lemma NextUint64_advanced:
  "NextUint64 (advanced b k) = (le_word (peek b k 8), advanced b (k + 8))"
  by (simp add: NextUint64_def Next_advanced)

lemmas reads_advanced = Next_advanced NextUint8_advanced NextUint16_advanced
  NextUint32_advanced NextUint64_advanced

lemma NextUint64s_advanced:
  "NextUint64s n (advanced b k) =
    (map (\<lambda>j. le_word (peek b (k + 8 * j) 8)) [0..<n], advanced b (k + 8 * n))"
proof (induction n arbitrary: k)
  case 0
  then show ?case by simp
next
  case (Suc n)
  have "map (\<lambda>j. le_word (peek b (k + 8 * j) 8) :: 64 word) [0..<Suc n] =
        le_word (peek b k 8) # map (\<lambda>j. le_word (peek b (k + 8 + 8 * j) 8)) [0..<n]"
    by (simp add: upt_conv_Cons map_Suc_upt [symmetric] add_ac del: upt_Suc)
  then show ?case
    by (simp add: NextUint64_advanced Suc.IH add_ac del: upt_Suc)
qed

lemma Key_Parse_advanced:
  "Key_Parse k (advanced b n) =
    (k\<lparr>Key_ObjectId := le_word (peek b n 8), Key_Type := le_word (peek b (n + 8) 1),
       Key_Offset := le_word (peek b (n + 9) 8)\<rparr>, advanced b (n + 17))"
  by (simp add: Key_Parse_def reads_advanced add_ac)

lemma Item_Parse_advanced:
  "Item_Parse i (advanced b n) =
    (i\<lparr>Item_Key := (Item_Key i)\<lparr>Key_ObjectId := le_word (peek b n 8),
          Key_Type := le_word (peek b (n + 8) 1), Key_Offset := le_word (peek b (n + 9) 8)\<rparr>,
       Item_Offset := le_word (peek b (n + 17) 4), Item_Size := le_word (peek b (n + 21) 4)\<rparr>,
     advanced b (n + 25))"
  by (simp add: Item_Parse_def Key_Parse_advanced reads_advanced add_ac)

lemma NextTime_advanced:
  "NextTime (advanced b n) =
    (Time_Unix (le_word (peek b n 8)) (ucast (le_word (peek b (n + 8) 4) :: 32 word)),
     advanced b (n + 12))"
  by (simp add: NextTime_def reads_advanced add_ac)

lemma InodeItem_Parse_advanced:
  "\<exists>x. InodeItem_Parse i (advanced b n) = (x, advanced b (n + 160))"
  by (simp add: InodeItem_Parse_def NextTime_advanced reads_advanced add_ac)

lemma Header_Parse_advanced:
  "\<exists>x. Header_Parse h (advanced b n) = (x, advanced b (n + 101))"
  by (simp add: Header_Parse_def reads_advanced add_ac CSumSize_def UUIDSize_def)

text \<open>The root item, read field by field from the bytes that follow the cursor.\<close>

lemma RootItem_Parse_advanced:
  "RootItem_Parse i (advanced b k) =
    (let i1 = i\<lparr>RootItem_Inode := fst (InodeItem_Parse (RootItem_Inode i) (advanced b k)),
                 RootItem_Generation := le_word (peek b (k + 160) 8),
                 RootItem_RootDirId := le_word (peek b (k + 168) 8),
                 RootItem_ByteNr := le_word (peek b (k + 176) 8),
                 RootItem_ByteLimit := le_word (peek b (k + 184) 8),
                 RootItem_LastSnapshot := le_word (peek b (k + 192) 8),
                 RootItem_Flags := le_word (peek b (k + 200) 8),
                 RootItem_Refs := le_word (peek b (k + 208) 4),
                 RootItem_DropProgress := (RootItem_DropProgress i)
                   \<lparr>Key_ObjectId := le_word (peek b (k + 212) 8),
                    Key_Type := le_word (peek b (k + 220) 1),
                    Key_Offset := le_word (peek b (k + 221) 8)\<rparr>,
                 RootItem_DropLevel := le_word (peek b (k + 229) 1),
                 RootItem_Level := le_word (peek b (k + 230) 1),
                 RootItem_GenerationV2 := le_word (peek b (k + 231) 8)\<rparr>
     in if (le_word (peek b (k + 160) 8) :: 64 word) = le_word (peek b (k + 231) 8) then
          (i1\<lparr>RootItem_UUID := copy_bytes (RootItem_UUID i) (peek b (k + 239) 16),
              RootItem_ParentUUID := copy_bytes (RootItem_ParentUUID i) (peek b (k + 255) 16),
              RootItem_ReceivedUUID := copy_bytes (RootItem_ReceivedUUID i) (peek b (k + 271) 16),
              RootItem_CTransId := le_word (peek b (k + 287) 8),
              RootItem_OTransId := le_word (peek b (k + 295) 8),
              RootItem_STransId := le_word (peek b (k + 303) 8),
              RootItem_RTransId := le_word (peek b (k + 311) 8),
              RootItem_Reserved := map (\<lambda>j. le_word (peek b (k + 319 + 8 * j) 8)) [0..<8]\<rparr>,
           advanced b (k + 383))
        else (i1, advanced b (k + 239)))"
proof -
  obtain x where x: "InodeItem_Parse (RootItem_Inode i) (advanced b k) = (x, advanced b (k + 160))"
    using InodeItem_Parse_advanced by blast
  show ?thesis
    unfolding RootItem_Parse_def
    by (simp add: x Key_Parse_advanced reads_advanced NextUint64s_advanced UUIDSize_def add_ac
        Let_def del: upt_Suc upt_rec_numeral)
qed

section \<open>Reads at or past the end of the slice\<close>

lemma Next_past_end: "length (buf b) \<le> offset b \<Longrightarrow> Next n b = ([], b)"
  by (simp add: Next_def)

lemma NextUint8_past_end: "length (buf b) \<le> offset b \<Longrightarrow> NextUint8 b = (0, b)"
  by (simp add: NextUint8_def Next_past_end)

lemma NextUint16_past_end: "length (buf b) \<le> offset b \<Longrightarrow> NextUint16 b = (0, b)"
  by (simp add: NextUint16_def Next_past_end)

lemma NextUint32_past_end: "length (buf b) \<le> offset b \<Longrightarrow> NextUint32 b = (0, b)"
  by (simp add: NextUint32_def Next_past_end)

lemma NextUint64_past_end: "length (buf b) \<le> offset b \<Longrightarrow> NextUint64 b = (0, b)"
  by (simp add: NextUint64_def Next_past_end)

lemma NextUint64s_past_end:
  "length (buf b) \<le> offset b \<Longrightarrow> NextUint64s n b = (replicate n 0, b)"
  by (induction n) (simp_all add: NextUint64_past_end)

lemma NextTime_past_end: "length (buf b) \<le> offset b \<Longrightarrow> NextTime b = (Time_Unix 0 0, b)"
  by (simp add: NextTime_def NextUint64_past_end NextUint32_past_end)

lemmas reads_past_end = Next_past_end NextUint8_past_end NextUint16_past_end
  NextUint32_past_end NextUint64_past_end NextUint64s_past_end NextTime_past_end

lemma Key_Parse_past_end:
  "length (buf b) \<le> offset b \<Longrightarrow>
    Key_Parse k b = (fst (Key_Parse k \<lparr>buf = [], offset = 0\<rparr>), b)"
  by (simp add: Key_Parse_def reads_past_end)

lemma InodeItem_Parse_past_end:
  "length (buf b) \<le> offset b \<Longrightarrow>
    InodeItem_Parse i b = (fst (InodeItem_Parse i \<lparr>buf = [], offset = 0\<rparr>), b)"
  by (simp add: InodeItem_Parse_def reads_past_end)

lemma InodeRefItem_Parse_past_end:
  "length (buf b) \<le> offset b \<Longrightarrow>
    InodeRefItem_Parse i b = (fst (InodeRefItem_Parse i \<lparr>buf = [], offset = 0\<rparr>), b)"
  by (simp add: InodeRefItem_Parse_def reads_past_end)

lemma DirItem_Parse_past_end:
  "length (buf b) \<le> offset b \<Longrightarrow>
    DirItem_Parse i b = (fst (DirItem_Parse i \<lparr>buf = [], offset = 0\<rparr>), b)"
  by (simp add: DirItem_Parse_def Key_Parse_def reads_past_end)

lemma FileExtentItem_Parse_past_end:
  "length (buf b) \<le> offset b \<Longrightarrow>
    FileExtentItem_Parse i b = (fst (FileExtentItem_Parse i \<lparr>buf = [], offset = 0\<rparr>), b)"
  by (simp add: FileExtentItem_Parse_def reads_past_end)

lemma CSumItem_Parse_past_end:
  "length (buf b) \<le> offset b \<Longrightarrow>
    CSumItem_Parse i b = (fst (CSumItem_Parse i \<lparr>buf = [], offset = 0\<rparr>), b)"
  by (simp add: CSumItem_Parse_def reads_past_end)

lemma RootItem_Parse_past_end:
  "length (buf b) \<le> offset b \<Longrightarrow>
    RootItem_Parse i b = (fst (RootItem_Parse i \<lparr>buf = [], offset = 0\<rparr>), b)"
  by (simp add: RootItem_Parse_def InodeItem_Parse_def Key_Parse_def reads_past_end)

lemma RootRef_Parse_past_end:
  "length (buf b) \<le> offset b \<Longrightarrow>
    RootRef_Parse i b = (fst (RootRef_Parse i \<lparr>buf = [], offset = 0\<rparr>), b)"
  by (simp add: RootRef_Parse_def reads_past_end)

lemma ExtentItem_Parse_past_end:
  "length (buf b) \<le> offset b \<Longrightarrow>
    ExtentItem_Parse i b = (fst (ExtentItem_Parse i \<lparr>buf = [], offset = 0\<rparr>), b)"
  by (simp add: ExtentItem_Parse_def reads_past_end)

lemma BlockGroupItem_Parse_past_end:
  "length (buf b) \<le> offset b \<Longrightarrow>
    BlockGroupItem_Parse i b = (fst (BlockGroupItem_Parse i \<lparr>buf = [], offset = 0\<rparr>), b)"
  by (simp add: BlockGroupItem_Parse_def reads_past_end)

lemmas variants_past_end = InodeItem_Parse_past_end InodeRefItem_Parse_past_end
  DirItem_Parse_past_end FileExtentItem_Parse_past_end CSumItem_Parse_past_end
  RootItem_Parse_past_end RootRef_Parse_past_end ExtentItem_Parse_past_end
  BlockGroupItem_Parse_past_end

lemma Item_ParseData_past_end:
  assumes "length (buf b) \<le> offset b"
  shows "Item_ParseData i b = (fst (Item_ParseData i \<lparr>buf = [], offset = 0\<rparr>), b)"
  unfolding Item_ParseData_def Let_def
  by (simp add: variants_past_end [OF assms] split_beta)

section \<open>The slice behind the cursor never changes\<close>

lemma buf_InodeItem_Parse: "buf (snd (InodeItem_Parse i b)) = buf b"
proof -
  have "buf (snd (InodeItem_Parse i (advanced b 0))) = buf b"
    by (simp add: InodeItem_Parse_def NextTime_advanced reads_advanced buf_advanced)
  then show ?thesis by (simp add: advanced_0)
qed

lemma buf_InodeRefItem_Parse: "buf (snd (InodeRefItem_Parse i b)) = buf b"
proof -
  have "buf (snd (InodeRefItem_Parse i (advanced b 0))) = buf b"
    by (simp add: InodeRefItem_Parse_def reads_advanced buf_advanced Let_def)
  then show ?thesis by (simp add: advanced_0)
qed

lemma buf_DirItem_Parse: "buf (snd (DirItem_Parse i b)) = buf b"
proof -
  have "buf (snd (DirItem_Parse i (advanced b 0))) = buf b"
    by (simp add: DirItem_Parse_def Key_Parse_advanced reads_advanced buf_advanced Let_def)
  then show ?thesis by (simp add: advanced_0)
qed

lemma buf_FileExtentItem_Parse: "buf (snd (FileExtentItem_Parse i b)) = buf b"
proof -
  have "buf (snd (FileExtentItem_Parse i (advanced b 0))) = buf b"
    by (simp add: FileExtentItem_Parse_def reads_advanced buf_advanced)
  then show ?thesis by (simp add: advanced_0)
qed

lemma buf_CSumItem_Parse: "buf (snd (CSumItem_Parse i b)) = buf b"
proof -
  have "buf (snd (CSumItem_Parse i (advanced b 0))) = buf b"
    by (simp add: CSumItem_Parse_def reads_advanced buf_advanced)
  then show ?thesis by (simp add: advanced_0)
qed

lemma buf_RootItem_Parse: "buf (snd (RootItem_Parse i b)) = buf b"
proof -
  have "buf (snd (RootItem_Parse i (advanced b 0))) = buf b"
    by (simp add: RootItem_Parse_advanced buf_advanced Let_def)
  then show ?thesis by (simp add: advanced_0)
qed

lemma buf_RootRef_Parse: "buf (snd (RootRef_Parse i b)) = buf b"
proof -
  have "buf (snd (RootRef_Parse i (advanced b 0))) = buf b"
    by (simp add: RootRef_Parse_def reads_advanced buf_advanced Let_def)
  then show ?thesis by (simp add: advanced_0)
qed

lemma buf_ExtentItem_Parse: "buf (snd (ExtentItem_Parse i b)) = buf b"
proof -
  have "buf (snd (ExtentItem_Parse i (advanced b 0))) = buf b"
    by (simp add: ExtentItem_Parse_def reads_advanced buf_advanced)
  then show ?thesis by (simp add: advanced_0)
qed

lemma buf_BlockGroupItem_Parse: "buf (snd (BlockGroupItem_Parse i b)) = buf b"
proof -
  have "buf (snd (BlockGroupItem_Parse i (advanced b 0))) = buf b"
    by (simp add: BlockGroupItem_Parse_def reads_advanced buf_advanced)
  then show ?thesis by (simp add: advanced_0)
qed

lemmas buf_variants = buf_InodeItem_Parse buf_InodeRefItem_Parse buf_DirItem_Parse
  buf_FileExtentItem_Parse buf_CSumItem_Parse buf_RootItem_Parse buf_RootRef_Parse
  buf_ExtentItem_Parse buf_BlockGroupItem_Parse

lemma buf_Item_ParseData: "buf (snd (Item_ParseData i b)) = buf b"
  unfolding Item_ParseData_def Let_def
  by (simp add: buf_variants split_beta)

text \<open>\<open>ParseData\<close> touches no field of the item but \<open>Data\<close>.\<close>

lemma Item_ParseData_keeps_descriptor:
  "(fst (Item_ParseData i b))\<lparr>Item_Data := x\<rparr> = i\<lparr>Item_Data := x\<rparr>"
  unfolding Item_ParseData_def Let_def
  by (simp add: split_beta)

lemma Item_ParseData_unknown:
  "Key_Type (Item_Key i) \<notin> set dispatch_tags \<Longrightarrow> Item_ParseData i b = (i, b)"
  unfolding Item_ParseData_def Let_def dispatch_tags_def
  by simp


section \<open>The two loops of Leaf.Parse\<close>

lemma SetOffset_same_buf: "buf b' = buf b \<Longrightarrow> SetOffset n b' = SetOffset n b"
  by (cases b, cases b') (simp add: SetOffset_def)

text \<open>
  The second loop seeks before every payload, so an item's payload is a function of the
  slice and of the item's own descriptor: no item's decoding depends on another item.
\<close>

lemma parse_items_data_buf: "buf (snd (parse_items_data h items b)) = buf b"
  by (induction items arbitrary: b)
     (simp_all add: split_beta Let_def buf_Item_ParseData SetOffset_def)

lemma parse_items_data_map:
  "fst (parse_items_data h items b) =
    map (\<lambda>it. fst (Item_ParseData it (SetOffset (unat (h + Item_Offset it)) b))) items"
proof (induction items arbitrary: b)
  case Nil
  then show ?case by simp
next
  case (Cons it items)
  have "buf (snd (Item_ParseData it (SetOffset (unat (h + Item_Offset it)) b))) = buf b"
    by (simp add: buf_Item_ParseData SetOffset_def)
  then have "\<And>n. SetOffset n (snd (Item_ParseData it (SetOffset (unat (h + Item_Offset it)) b)))
      = SetOffset n b"
    by (rule SetOffset_same_buf)
  then show ?case
    by (simp add: split_beta Let_def Cons.IH)
qed

text \<open>The first loop reads one descriptor every 25 bytes.\<close>

lemma parse_items_advanced:
  "parse_items items (advanced b k) =
    (map (\<lambda>j. fst (Item_Parse (items ! j) (advanced b (k + 25 * j)))) [0..<length items],
     advanced b (k + 25 * length items))"
proof (induction items arbitrary: k)
  case Nil
  then show ?case by simp
next
  case (Cons it items)
  have "map (\<lambda>j. fst (Item_Parse ((it # items) ! j) (advanced b (k + 25 * j))))
          [0..<length (it # items)] =
        fst (Item_Parse it (advanced b k)) #
        map (\<lambda>j. fst (Item_Parse (items ! j) (advanced b (k + 25 + 25 * j)))) [0..<length items]"
    by (simp add: upt_conv_Cons map_Suc_upt [symmetric] add_ac del: upt_Suc)
  then show ?case
    by (simp add: Item_Parse_advanced Cons.IH add_ac del: upt_Suc)
qed

lemma parse_items_zero:
  "parse_items (replicate n zero_Item) b =
    (map (\<lambda>j. fst (Item_Parse zero_Item (advanced b (25 * j)))) [0..<n], advanced b (25 * n))"
  using parse_items_advanced [of "replicate n zero_Item" b 0]
  by (simp add: advanced_0 cong: map_cong)

text \<open>The number of items: the comparison and the assignment are on \<open>uint32\<close>.\<close>

lemma clamped_count:
  "unat (if N > (of_nat m :: 32 word) then of_nat m else N) = min (unat N) (m mod 2 ^ 32)"
  by (auto simp: word_less_nat_alt unat_of_nat min_def)

lemma Leaf_Parse_items:
  assumes "Header_NrItems (Leaf_Header l) \<noteq> 0"
  shows "Leaf_Items (fst (Leaf_Parse l b)) =
    map (\<lambda>j. fst (Item_ParseData (fst (Item_Parse zero_Item (advanced b (25 * j))))
                (SetOffset (unat ((of_nat (Offset b) :: 32 word) +
                   Item_Offset (fst (Item_Parse zero_Item (advanced b (25 * j)))))) b)))
      [0..<min (unat (Header_NrItems (Leaf_Header l))) ((Unread b div 25) mod 2 ^ 32)]"
proof -
  have same: "\<And>n m. SetOffset n (advanced b m) = SetOffset n b"
    by (rule SetOffset_same_buf) (rule buf_advanced)
  show ?thesis
    using assms
    unfolding Leaf_Parse_def Let_def
    by (simp add: split_beta parse_items_zero parse_items_data_map clamped_count same o_def)
qed

lemma Leaf_Parse_length:
  "length (Leaf_Items (fst (Leaf_Parse l b))) =
    (if Header_NrItems (Leaf_Header l) = 0 then length (Leaf_Items l)
     else min (unat (Header_NrItems (Leaf_Header l))) ((Unread b div 25) mod 2 ^ 32))"
proof (cases "Header_NrItems (Leaf_Header l) = 0")
  case True
  then show ?thesis by (simp add: Leaf_Parse_def)
next
  case False
  then show ?thesis by (simp add: Leaf_Parse_items)
qed

lemma Leaf_Parse_length_le:
  "Header_NrItems (Leaf_Header l) \<noteq> 0 \<Longrightarrow>
    length (Leaf_Items (fst (Leaf_Parse l b))) \<le> Unread b div 25"
  by (simp add: Leaf_Parse_length min.coboundedI2)

lemma Leaf_Parse_length_exact:
  "Unread b div 25 < 2 ^ 32 \<Longrightarrow> Leaf_Items l = [] \<Longrightarrow>
    length (Leaf_Items (fst (Leaf_Parse l b))) =
      min (unat (Header_NrItems (Leaf_Header l))) (Unread b div 25)"
  by (simp add: Leaf_Parse_length)

section \<open>The item count of a leaf\<close>

lemma le_word_zeros: "le_word (replicate n 0) = 0"
  by (induction n) simp_all

text \<open>
  C1, the code at a failing input. The claim gives the number of decoded items as
  \<open>min NrItems (unread div 25)\<close> for every buffer. \<open>Leaf.Parse\<close> converts the quotient to
  \<open>uint32\<close> before it compares: with \<open>25 * 2 ^ 32\<close> unread bytes the quotient \<open>2 ^ 32\<close>
  becomes 0, and a header that declares one item yields no item, where the claim says one.
  (\<open>Leaf_Parse_length\<close> gives the count for every input, \<open>Leaf_Parse_length_le\<close> the bound
  \<open>unread div 25\<close> that always holds, \<open>Leaf_Parse_length_exact\<close> the claim's count below
  \<open>25 * 2 ^ 32\<close> unread bytes.)
\<close>

theorem Leaf_Parse_count_truncated:
  "Unread huge_buffer div 25 = 2 ^ 32 \<and>
   Header_NrItems (Leaf_Header one_item_leaf) = 1 \<and>
   min (unat (Header_NrItems (Leaf_Header one_item_leaf))) (Unread huge_buffer div 25) = 1 \<and>
   Leaf_Items (fst (Leaf_Parse one_item_leaf huge_buffer)) = []"
proof -
  have u: "Unread huge_buffer div 25 = 2 ^ 32"
    by (simp add: Unread_def huge_buffer_def)
  have n: "Header_NrItems (Leaf_Header one_item_leaf) = 1"
    by (simp add: one_item_leaf_def)
  have "length (Leaf_Items (fst (Leaf_Parse one_item_leaf huge_buffer))) = 0"
    by (simp add: Leaf_Parse_length n u)
  with u n show ?thesis by simp
qed

section \<open>The size of an item descriptor\<close>

text \<open>
  When at least 25 bytes are unread, \<open>Item.Parse\<close> moves the cursor by exactly 25 bytes: 17
  bytes of key (8 + 1 + 8), then the data offset from the 4 bytes at 17 and the data size
  from the 4 bytes at 21. It reads no payload: \<open>Data\<close> stays as it was.
\<close>

lemma Item_Parse_consumes_25:
  assumes "25 \<le> Unread b"
  shows "Offset (snd (Item_Parse i b)) = Offset b + 0x19 \<and>
         buf (snd (Item_Parse i b)) = buf b \<and>
         Item_Key (fst (Item_Parse i b)) = fst (Key_Parse (Item_Key i) b) \<and>
         Offset (snd (Key_Parse (Item_Key i) b)) = Offset b + 17 \<and>
         Item_Offset (fst (Item_Parse i b)) = le_word (peek b 17 4) \<and>
         Item_Size (fst (Item_Parse i b)) = le_word (peek b 21 4) \<and>
         Item_Data (fst (Item_Parse i b)) = Item_Data i"
proof -
  have "Item_Parse i (advanced b 0) =
      (i\<lparr>Item_Key := (Item_Key i)\<lparr>Key_ObjectId := le_word (peek b 0 8),
            Key_Type := le_word (peek b (0 + 8) 1), Key_Offset := le_word (peek b (0 + 9) 8)\<rparr>,
         Item_Offset := le_word (peek b (0 + 17) 4), Item_Size := le_word (peek b (0 + 21) 4)\<rparr>,
       advanced b (0 + 25))"
    by (rule Item_Parse_advanced)
  moreover have "Key_Parse (Item_Key i) (advanced b 0) =
      ((Item_Key i)\<lparr>Key_ObjectId := le_word (peek b 0 8),
          Key_Type := le_word (peek b (0 + 8) 1), Key_Offset := le_word (peek b (0 + 9) 8)\<rparr>,
       advanced b (0 + 17))"
    by (rule Key_Parse_advanced)
  ultimately show ?thesis
    using assms by (simp add: advanced_0 Offset_def offset_advanced buf_advanced)
qed

text \<open>
  C9. The divisor \<open>0x19\<close> of the clamp in \<open>Leaf.Parse\<close> is the number of bytes that
  \<open>Item.Parse\<close> consumes. When at least 25 bytes are unread, decoding one descriptor moves
  the cursor by exactly \<open>0x19\<close> = 25 bytes (17 of key, 4 of offset, 4 of size, no payload).
  In a leaf whose header declares items, the number of descriptors is the declared count
  clamped by \<open>unread div 0x19\<close> (taken as \<open>uint32\<close>); the first loop, which decodes that many
  descriptors, moves the cursor by exactly \<open>0x19\<close> times that number, which the unread bytes
  hold; and when the clamp decides the count, fewer than \<open>0x19\<close> bytes are left over, so
  no further descriptor would fit.
\<close>

theorem clamp_divisor_is_descriptor_size:
  assumes "25 \<le> Unread b" and "Header_NrItems (Leaf_Header l) \<noteq> 0"
  shows "Offset (snd (Item_Parse i b)) = Offset b + 0x19 \<and>
         buf (snd (Item_Parse i b)) = buf b \<and>
         Item_Key (fst (Item_Parse i b)) = fst (Key_Parse (Item_Key i) b) \<and>
         Offset (snd (Key_Parse (Item_Key i) b)) = Offset b + 17 \<and>
         Item_Offset (fst (Item_Parse i b)) = le_word (peek b 17 4) \<and>
         Item_Size (fst (Item_Parse i b)) = le_word (peek b 21 4) \<and>
         Item_Data (fst (Item_Parse i b)) = Item_Data i \<and>
         length (Leaf_Items (fst (Leaf_Parse l b))) =
           min (unat (Header_NrItems (Leaf_Header l))) ((Unread b div 0x19) mod 2 ^ 32) \<and>
         Offset (snd (parse_items
             (replicate (length (Leaf_Items (fst (Leaf_Parse l b)))) zero_Item) b)) =
           Offset b + 0x19 * length (Leaf_Items (fst (Leaf_Parse l b))) \<and>
         0x19 * length (Leaf_Items (fst (Leaf_Parse l b))) \<le> Unread b \<and>
         (Unread b div 0x19 \<le> unat (Header_NrItems (Leaf_Header l)) \<and>
          Unread b div 0x19 < 2 ^ 32 \<longrightarrow>
            Unread b - 0x19 * length (Leaf_Items (fst (Leaf_Parse l b))) < 0x19)"
proof -
  let ?n = "length (Leaf_Items (fst (Leaf_Parse l b)))"
  have n: "?n = min (unat (Header_NrItems (Leaf_Header l))) ((Unread b div 25) mod 2 ^ 32)"
    using assms(2) by (simp add: Leaf_Parse_length)
  have "?n \<le> Unread b div 25"
    using assms(2) by (rule Leaf_Parse_length_le)
  then have fit: "25 * ?n \<le> Unread b"
    by simp
  have scan: "Offset (snd (parse_items (replicate ?n zero_Item) b)) = Offset b + 25 * ?n"
    using fit by (simp add: parse_items_zero Offset_def offset_advanced)
  have rest: "Unread b div 25 \<le> unat (Header_NrItems (Leaf_Header l)) \<Longrightarrow>
      Unread b div 25 < 2 ^ 32 \<Longrightarrow> Unread b - 25 * ?n < 25"
  proof -
    assume "Unread b div 25 \<le> unat (Header_NrItems (Leaf_Header l))"
      and "Unread b div 25 < 2 ^ 32"
    then have "?n = Unread b div 25"
      using n by simp
    then have "Unread b - 25 * ?n = Unread b mod 25"
      by (simp add: minus_mult_div_eq_mod)
    then show ?thesis by simp
  qed
  from Item_Parse_consumes_25 [OF assms(1), of i] n scan fit rest
  show ?thesis by simp
qed

theorem clamp_divisor_is_descriptor_size_witness:
  "25 \<le> Unread past_end_cursor \<and>
   Header_NrItems (Leaf_Header two_item_leaf) \<noteq> 0 \<and>
   Offset (snd (Item_Parse zero_Item past_end_cursor)) = 25 \<and>
   Item_Offset (fst (Item_Parse zero_Item past_end_cursor)) = 1000 \<and>
   Item_Size (fst (Item_Parse zero_Item past_end_cursor)) = 1 \<and>
   Item_Data (fst (Item_Parse zero_Item past_end_cursor)) = None \<and>
   unat (Header_NrItems (Leaf_Header two_item_leaf)) = 2 \<and>
   Unread past_end_cursor div 0x19 = 1 \<and>
   length (Leaf_Items (fst (Leaf_Parse two_item_leaf past_end_cursor))) = 1 \<and>
   Offset (snd (parse_items (replicate 1 zero_Item) past_end_cursor)) = 25 \<and>
   Unread past_end_cursor - 0x19 * length (Leaf_Items (fst (Leaf_Parse two_item_leaf past_end_cursor))) = 0"
proof -
  have h: "25 \<le> Unread past_end_cursor"
    and u: "Unread past_end_cursor = 25"
    by (simp_all add: Unread_def past_end_cursor_def)
  have o: "Header_NrItems (Leaf_Header two_item_leaf) \<noteq> 0"
    and t: "unat (Header_NrItems (Leaf_Header two_item_leaf)) = 2"
    by (simp_all add: two_item_leaf_def)
  have off: "Offset past_end_cursor = 0"
    by (simp add: Offset_def past_end_cursor_def)
  have p: "peek past_end_cursor 17 4 = [0xE8, 3, 0, 0]" "peek past_end_cursor 21 4 = [1, 0, 0, 0]"
    by (simp_all add: peek_def past_end_cursor_def)
  have z: "Item_Data zero_Item = None"
    by (simp add: zero_Item_def)
  show ?thesis
    using h o clamp_divisor_is_descriptor_size [OF h o, of zero_Item]
    by (simp add: u t off p z split_beta)
qed

section \<open>Clamped lengths of names and inline data\<close>

lemma length_peek: "n \<le> m \<Longrightarrow> length (peek b k n) \<le> m"
  by (simp add: peek_def)

lemma length_string_of: "length (string_of bs) = length bs"
  by (simp add: string_of_def)

lemma InodeRefItem_Name_length: "length (InodeRefItem_Name (fst (InodeRefItem_Parse r b))) \<le> 255"
proof -
  have "length (InodeRefItem_Name (fst (InodeRefItem_Parse r (advanced b 0)))) \<le> 255"
    by (simp add: InodeRefItem_Parse_def reads_advanced Let_def length_string_of length_peek)
  then show ?thesis by (simp add: advanced_0)
qed

lemma DirItem_Name_length: "length (DirItem_Name (fst (DirItem_Parse d b))) \<le> 255"
proof -
  have "length (DirItem_Name (fst (DirItem_Parse d (advanced b 0)))) \<le> 255"
    by (simp add: DirItem_Parse_def Key_Parse_advanced reads_advanced Let_def length_string_of
        length_peek)
  then show ?thesis by (simp add: advanced_0)
qed

lemma RootRef_Name_length: "length (RootRef_Name (fst (RootRef_Parse t b))) \<le> 255"
proof -
  have "length (RootRef_Name (fst (RootRef_Parse t (advanced b 0)))) \<le> 255"
    by (simp add: RootRef_Parse_def reads_advanced Let_def length_string_of length_peek)
  then show ?thesis by (simp add: advanced_0)
qed

lemma DirItem_Data_length: "length (DirItem_Data (fst (DirItem_Parse d b))) \<le> 4096"
proof -
  have "length (DirItem_Data (fst (DirItem_Parse d (advanced b 0)))) \<le> 4096"
    by (simp add: DirItem_Parse_def Key_Parse_advanced reads_advanced Let_def length_string_of
        length_peek DefaultBlockSize_def)
  then show ?thesis by (simp add: advanced_0)
qed

text \<open>
  C7. Whatever the declared name length, the name decoded by each of the three
  name-bearing decoders (inode ref; directory item, directory index and xattr item; root
  ref and root backref) has at most 255 bytes.
\<close>

theorem decoded_name_at_most_255:
  "length (InodeRefItem_Name (fst (InodeRefItem_Parse r b))) \<le> 255 \<and>
   length (DirItem_Name (fst (DirItem_Parse d b))) \<le> 255 \<and>
   length (RootRef_Name (fst (RootRef_Parse t b))) \<le> 255"
  using InodeRefItem_Name_length DirItem_Name_length RootRef_Name_length by blast

text \<open>
  C8. Whatever the declared data length, the inline data decoded by the directory-item
  decoder has at most \<open>DefaultBlockSize\<close> = 4096 bytes.
\<close>

theorem decoded_inline_data_at_most_one_block:
  "length (DirItem_Data (fst (DirItem_Parse d b))) \<le> DefaultBlockSize \<and>
   DefaultBlockSize = 4096"
  using DirItem_Data_length [of d b] by (simp add: DefaultBlockSize_def)

section \<open>The root item\<close>

lemma RootItem_Parse_result:
  "RootItem_Parse i b =
    (let i1 = i\<lparr>RootItem_Inode := fst (InodeItem_Parse (RootItem_Inode i) b),
                 RootItem_Generation := le_word (peek b 160 8),
                 RootItem_RootDirId := le_word (peek b 168 8),
                 RootItem_ByteNr := le_word (peek b 176 8),
                 RootItem_ByteLimit := le_word (peek b 184 8),
                 RootItem_LastSnapshot := le_word (peek b 192 8),
                 RootItem_Flags := le_word (peek b 200 8),
                 RootItem_Refs := le_word (peek b 208 4),
                 RootItem_DropProgress := (RootItem_DropProgress i)
                   \<lparr>Key_ObjectId := le_word (peek b 212 8),
                    Key_Type := le_word (peek b 220 1),
                    Key_Offset := le_word (peek b 221 8)\<rparr>,
                 RootItem_DropLevel := le_word (peek b 229 1),
                 RootItem_Level := le_word (peek b 230 1),
                 RootItem_GenerationV2 := le_word (peek b 231 8)\<rparr>
     in if (le_word (peek b 160 8) :: 64 word) = le_word (peek b 231 8) then
          (i1\<lparr>RootItem_UUID := copy_bytes (RootItem_UUID i) (peek b 239 16),
              RootItem_ParentUUID := copy_bytes (RootItem_ParentUUID i) (peek b 255 16),
              RootItem_ReceivedUUID := copy_bytes (RootItem_ReceivedUUID i) (peek b 271 16),
              RootItem_CTransId := le_word (peek b 287 8),
              RootItem_OTransId := le_word (peek b 295 8),
              RootItem_STransId := le_word (peek b 303 8),
              RootItem_RTransId := le_word (peek b 311 8),
              RootItem_Reserved := map (\<lambda>j. le_word (peek b (319 + 8 * j) 8)) [0..<8]\<rparr>,
           advanced b 383)
        else (i1, advanced b 239))"
  using RootItem_Parse_advanced [of i b 0]
  by (simp add: advanced_0 Let_def del: upt_Suc upt_rec_numeral cong: if_cong)

text \<open>
  The gate of \<open>RootItem.Parse\<close> as the code has it, for every receiver and every buffer.
  The code decodes its field \<open>Generation\<close> from the 8 bytes at 160 of the payload and its
  field \<open>GenerationV2\<close> from the 8 bytes at 231. When the decoded values are equal, the three
  UUIDs, the four transaction ids and the eight reserved words are decoded from the 144
  bytes from 239 and the cursor moves by 383 bytes in all (or to the end of a shorter
  slice). When they differ, every extension field keeps the receiver's value and the
  cursor stops after 239 bytes (or at the end of a shorter slice).
\<close>

lemma RootItem_Parse_gate_as_decoded:
  "(case RootItem_Parse i b of (i', b') \<Rightarrow>
      RootItem_Generation i' = le_word (peek b 160 8) \<and>
      RootItem_GenerationV2 i' = le_word (peek b 231 8) \<and>
      buf b' = buf b \<and>
      (if RootItem_Generation i' = RootItem_GenerationV2 i' then
         Offset b' = Offset b + min 383 (Unread b) \<and>
         RootItem_UUID i' = copy_bytes (RootItem_UUID i) (peek b 239 16) \<and>
         RootItem_ParentUUID i' = copy_bytes (RootItem_ParentUUID i) (peek b 255 16) \<and>
         RootItem_ReceivedUUID i' = copy_bytes (RootItem_ReceivedUUID i) (peek b 271 16) \<and>
         RootItem_CTransId i' = le_word (peek b 287 8) \<and>
         RootItem_OTransId i' = le_word (peek b 295 8) \<and>
         RootItem_STransId i' = le_word (peek b 303 8) \<and>
         RootItem_RTransId i' = le_word (peek b 311 8) \<and>
         RootItem_Reserved i' = map (\<lambda>j. le_word (peek b (319 + 8 * j) 8)) [0..<8]
       else
         Offset b' = Offset b + min 239 (Unread b) \<and>
         RootItem_UUID i' = RootItem_UUID i \<and>
         RootItem_ParentUUID i' = RootItem_ParentUUID i \<and>
         RootItem_ReceivedUUID i' = RootItem_ReceivedUUID i \<and>
         RootItem_CTransId i' = RootItem_CTransId i \<and>
         RootItem_OTransId i' = RootItem_OTransId i \<and>
         RootItem_STransId i' = RootItem_STransId i \<and>
         RootItem_RTransId i' = RootItem_RTransId i \<and>
         RootItem_Reserved i' = RootItem_Reserved i))"
  by (simp add: RootItem_Parse_result Let_def Offset_def offset_advanced buf_advanced
      del: upt_Suc upt_rec_numeral)

text \<open>
  C5, the code at a failing input. In the order of the struct's fields the second
  generation lies at bytes 239 to 246 of the payload and the extension block starts at
  247. \<open>RootItem.Parse\<close> never reads \<open>BytesUsed\<close>, so it takes \<open>GenerationV2\<close> from the bytes
  231 to 238, eight bytes early. On \<open>equal_generations_payload\<close>, whose two generation
  fields are both 1, the code decodes the generations 1 and 0: it reads no extension
  field (the UUID stays zero, though the payload's UUID starts with 5) and leaves the
  cursor at 239, before the second generation and not past the extension block.
\<close>

theorem RootItem_Parse_misses_equal_generations:
  "peek equal_generations_payload 160 8 = 1 # replicate 7 0 \<and>
   peek equal_generations_payload 239 8 = 1 # replicate 7 0 \<and>
   peek equal_generations_payload 247 16 = 5 # replicate 15 0 \<and>
   Unread equal_generations_payload = 391 \<and>
   RootItem_Generation (fst (RootItem_Parse zero_RootItem equal_generations_payload)) = 1 \<and>
   RootItem_GenerationV2 (fst (RootItem_Parse zero_RootItem equal_generations_payload)) = 0 \<and>
   RootItem_UUID (fst (RootItem_Parse zero_RootItem equal_generations_payload)) =
     replicate 16 0 \<and>
   Offset (snd (RootItem_Parse zero_RootItem equal_generations_payload)) = 239"
proof -
  have g: "peek equal_generations_payload 160 8 = 1 # replicate 7 0"
    and v: "peek equal_generations_payload 239 8 = 1 # replicate 7 0"
    and u: "peek equal_generations_payload 247 16 = 5 # replicate 15 0"
    and r: "peek equal_generations_payload 231 8 = replicate 8 0"
    and o: "Offset equal_generations_payload = 0" "Unread equal_generations_payload = 391"
    by (simp_all add: peek_def Offset_def Unread_def equal_generations_payload_def)
  have z: "RootItem_UUID zero_RootItem = replicate 16 0"
    by (simp add: zero_RootItem_def UUIDSize_def)
  have "RootItem_Generation (fst (RootItem_Parse zero_RootItem equal_generations_payload)) = 1 \<and>
      RootItem_GenerationV2 (fst (RootItem_Parse zero_RootItem equal_generations_payload)) = 0 \<and>
      RootItem_UUID (fst (RootItem_Parse zero_RootItem equal_generations_payload)) =
        replicate 16 0 \<and>
      Offset (snd (RootItem_Parse zero_RootItem equal_generations_payload)) = 239"
    using RootItem_Parse_gate_as_decoded
      [where i = zero_RootItem and b = equal_generations_payload]
    by (simp add: split_beta g r o z le_word_zeros)
  with g v u o show ?thesis by simp
qed

lemma RootItem_Parse_BytesUsed:
  "RootItem_BytesUsed (fst (RootItem_Parse i b)) = RootItem_BytesUsed i \<and>
   RootItem_ByteLimit (fst (RootItem_Parse i b)) = le_word (peek b 184 8) \<and>
   RootItem_LastSnapshot (fst (RootItem_Parse i b)) = le_word (peek b 192 8)"
  by (simp add: RootItem_Parse_result Let_def del: upt_Suc upt_rec_numeral)

text \<open>
  C4, the code at a failing input. The struct \<open>RootItem\<close> declares \<open>BytesUsed\<close> between
  \<open>ByteLimit\<close> and \<open>LastSnapshot\<close>, and \<open>RootItem.Parse\<close> has no statement that assigns it:
  the field keeps the receiver's value. On a payload whose \<open>bytes_used\<close> (the 8 bytes at
  192, after the byte limit at 184) is 42, the decoded byte usage is 0 and the 42 is
  decoded as \<open>LastSnapshot\<close>.
\<close>

theorem RootItem_Parse_leaves_BytesUsed:
  "peek root_item_payload 192 8 = 42 # replicate 7 0 \<and>
   RootItem_BytesUsed (fst (RootItem_Parse zero_RootItem root_item_payload)) = 0 \<and>
   RootItem_ByteLimit (fst (RootItem_Parse zero_RootItem root_item_payload)) = 0 \<and>
   RootItem_LastSnapshot (fst (RootItem_Parse zero_RootItem root_item_payload)) = 42"
proof -
  have p: "peek root_item_payload 192 8 = 42 # replicate 7 0"
    by (simp add: peek_def root_item_payload_def)
  have q: "peek root_item_payload 184 8 = replicate 8 0"
    by (simp add: peek_def root_item_payload_def)
  show ?thesis
    by (simp add: RootItem_Parse_BytesUsed p q le_word_zeros zero_RootItem_def)
qed

section \<open>Leaf.Parse and the header\<close>

lemma Header_Parse_NrItems: "Header_NrItems (fst (Header_Parse h b)) = le_word (peek b 96 4)"
proof -
  have "Header_NrItems (fst (Header_Parse h (advanced b 0))) = le_word (peek b 96 4)"
    by (simp add: Header_Parse_def reads_advanced CSumSize_def UUIDSize_def)
  then show ?thesis by (simp add: advanced_0)
qed

lemma Item_Parse_zero_Data: "Item_Data (fst (Item_Parse zero_Item (advanced b k))) = None"
  by (simp add: Item_Parse_advanced zero_Item_def)

lemma Leaf_Parse_descriptors:
  assumes "Header_NrItems (Leaf_Header l) \<noteq> 0"
  shows "map (\<lambda>it. it\<lparr>Item_Data := None\<rparr>) (Leaf_Items (fst (Leaf_Parse l b))) =
    map (\<lambda>j. fst (Item_Parse zero_Item (advanced b (25 * j))))
      [0..<length (Leaf_Items (fst (Leaf_Parse l b)))]"
proof -
  have "\<And>j. (fst (Item_Parse zero_Item (advanced b (25 * j))))\<lparr>Item_Data := None\<rparr> =
      fst (Item_Parse zero_Item (advanced b (25 * j)))"
    by (simp add: Item_Parse_advanced zero_Item_def)
  then show ?thesis
    by (simp add: Leaf_Parse_items [OF assms] Item_ParseData_keeps_descriptor o_def)
qed

text \<open>
  C3, the claim as stated fails. The block \<open>header_block\<close> holds a header that declares one
  item, then that item. \<open>Leaf.Parse\<close> on a fresh leaf returns the leaf and the cursor as
  they were: it has decoded no header (the header of the result is not the one in the
  block) and has not moved the cursor.
\<close>

theorem Leaf_Parse_decodes_no_header:
  "Header_NrItems (fst (Header_Parse zero_Header header_block)) = 1 \<and>
   Leaf_Parse zero_Leaf header_block = (zero_Leaf, header_block) \<and>
   Leaf_Header (fst (Leaf_Parse zero_Leaf header_block)) \<noteq>
     fst (Header_Parse zero_Header header_block) \<and>
   Offset (snd (Leaf_Parse zero_Leaf header_block)) = 0"
proof -
  have n: "Header_NrItems (fst (Header_Parse zero_Header header_block)) = 1"
    by (simp add: Header_Parse_NrItems peek_def header_block_def)
  have z: "Header_NrItems (Leaf_Header zero_Leaf) = 0"
    by (simp add: zero_Leaf_def zero_Header_def)
  have p: "Leaf_Parse zero_Leaf header_block = (zero_Leaf, header_block)"
    by (simp add: Leaf_Parse_def z)
  have "Leaf_Header (fst (Leaf_Parse zero_Leaf header_block)) \<noteq>
      fst (Header_Parse zero_Header header_block)"
    using n z p by auto
  with n p show ?thesis
    by (simp add: Offset_def header_block_def)
qed

text \<open>
  C3, amended. \<open>Leaf.Parse\<close> reads no header: it works on the header its receiver holds
  (decoded beforehand with \<open>Header.Parse\<close>) and returns it unchanged. When that header's item
  count is 0 it returns at once, receiver and cursor as they were. Otherwise the
  descriptors are read from the position the cursor had on entry, one every 25 bytes.
\<close>

theorem Leaf_Parse_uses_receiver_header:
  "Leaf_Header (fst (Leaf_Parse l b)) = Leaf_Header l \<and>
   (Header_NrItems (Leaf_Header l) = 0 \<longrightarrow> Leaf_Parse l b = (l, b)) \<and>
   (Header_NrItems (Leaf_Header l) \<noteq> 0 \<longrightarrow>
      map (\<lambda>it. it\<lparr>Item_Data := None\<rparr>) (Leaf_Items (fst (Leaf_Parse l b))) =
      map (\<lambda>j. fst (Item_Parse zero_Item (advanced b (25 * j))))
        [0..<length (Leaf_Items (fst (Leaf_Parse l b)))])"
proof -
  have "Leaf_Header (fst (Leaf_Parse l b)) = Leaf_Header l"
    by (simp add: Leaf_Parse_def Let_def split_beta)
  moreover have "Header_NrItems (Leaf_Header l) = 0 \<longrightarrow> Leaf_Parse l b = (l, b)"
    by (simp add: Leaf_Parse_def)
  ultimately show ?thesis
    using Leaf_Parse_descriptors by blast
qed

theorem Leaf_Parse_uses_receiver_header_witness:
  "Header_NrItems (Leaf_Header zero_Leaf) = 0 \<and>
   Leaf_Parse zero_Leaf header_block = (zero_Leaf, header_block) \<and>
   Header_NrItems (Leaf_Header one_item_leaf) \<noteq> 0 \<and>
   Leaf_Header (fst (Leaf_Parse one_item_leaf past_end_cursor)) = Leaf_Header one_item_leaf \<and>
   map (\<lambda>it. it\<lparr>Item_Data := None\<rparr>) (Leaf_Items (fst (Leaf_Parse one_item_leaf past_end_cursor))) =
     [\<lparr>Item_Key = \<lparr>Key_ObjectId = 0, Key_Type = 128, Key_Offset = 0\<rparr>,
       Item_Offset = 1000, Item_Size = 1, Item_Data = None\<rparr>]"
proof -
  have z: "Header_NrItems (Leaf_Header zero_Leaf) = 0"
    by (simp add: zero_Leaf_def zero_Header_def)
  have o: "Header_NrItems (Leaf_Header one_item_leaf) \<noteq> 0"
    by (simp add: one_item_leaf_def)
  have len: "length (Leaf_Items (fst (Leaf_Parse one_item_leaf past_end_cursor))) = 1"
    by (simp add: Leaf_Parse_length one_item_leaf_def Unread_def past_end_cursor_def)
  have d: "fst (Item_Parse zero_Item (advanced past_end_cursor 0)) =
      \<lparr>Item_Key = \<lparr>Key_ObjectId = 0, Key_Type = 128, Key_Offset = 0\<rparr>,
       Item_Offset = 1000, Item_Size = 1, Item_Data = None\<rparr>"
    by (simp add: Item_Parse_advanced peek_def past_end_cursor_def zero_Item_def zero_Key_def)
  show ?thesis
    using z o Leaf_Parse_uses_receiver_header [of zero_Leaf header_block]
      Leaf_Parse_uses_receiver_header [of one_item_leaf past_end_cursor]
    by (simp add: len d)
qed

section \<open>Payload resolution\<close>

lemma CSumItem_Parse_result:
  "CSumItem_Parse i c = (i\<lparr>CSumItem_CSum := le_word (peek c 0 1)\<rparr>, advanced c 1)"
proof -
  have "CSumItem_Parse i (advanced c 0) =
      (i\<lparr>CSumItem_CSum := le_word (peek c 0 1)\<rparr>, advanced c 1)"
    by (simp add: CSumItem_Parse_def reads_advanced)
  then show ?thesis by (simp add: advanced_0)
qed

lemma Item_ParseData_CSum:
  "Key_Type (Item_Key i) = 128 \<Longrightarrow>
    Item_ParseData i c =
      (i\<lparr>Item_Data := Some (Data_CSumItem \<lparr>CSumItem_CSum = le_word (peek c 0 1)\<rparr>)\<rparr>,
       advanced c 1)"
  unfolding Item_ParseData_def Let_def
  by (simp add: CSumItem_Parse_result zero_CSumItem_def InodeItemKey_def InodeRefKey_def
      XAttrItemKey_def DirItemKey_def DirIndexKey_def ExtentDataKey_def ExtentCSumKey_def)


lemma seek_target: "unat ((of_nat p :: 32 word) + w) = (p + unat w) mod 2 ^ 32"
  by (simp add: unat_word_ariths unat_of_nat mod_add_left_eq)

lemma Leaf_Parse_unfold:
  assumes "Header_NrItems (Leaf_Header l) \<noteq> 0"
  shows "Leaf_Parse l b =
    (let n = min (unat (Header_NrItems (Leaf_Header l))) ((Unread b div 25) mod 2 ^ 32);
         ds = map (\<lambda>j. fst (Item_Parse zero_Item (advanced b (25 * j)))) [0..<n];
         r = parse_items_data (of_nat (Offset b)) ds (advanced b (25 * n))
     in (l\<lparr>Leaf_Items := fst r\<rparr>, snd r))"
  using assms
  unfolding Leaf_Parse_def Let_def
  by (simp add: split_beta parse_items_zero clamped_count)


lemma wrap_descriptor:
  "fst (Item_Parse zero_Item (advanced wrap_cursor 0)) =
    \<lparr>Item_Key = \<lparr>Key_ObjectId = 0, Key_Type = 128, Key_Offset = 0\<rparr>,
     Item_Offset = 0xFFFFFFFF, Item_Size = 1, Item_Data = None\<rparr>"
  by (simp add: Item_Parse_advanced peek_def wrap_cursor_def zero_Item_def zero_Key_def)

lemma two_item_descriptors:
  "fst (Item_Parse zero_Item (advanced two_item_cursor 0)) =
    \<lparr>Item_Key = \<lparr>Key_ObjectId = 0, Key_Type = 13, Key_Offset = 0\<rparr>,
     Item_Offset = 50, Item_Size = 1, Item_Data = None\<rparr>"
  "fst (Item_Parse zero_Item (advanced two_item_cursor 25)) =
    \<lparr>Item_Key = \<lparr>Key_ObjectId = 0, Key_Type = 128, Key_Offset = 0\<rparr>,
     Item_Offset = 50, Item_Size = 1, Item_Data = None\<rparr>"
  by (simp_all add: Item_Parse_advanced peek_def two_item_cursor_def zero_Item_def zero_Key_def)

lemma tag_13_unknown: "(13 :: 8 word) \<notin> set dispatch_tags"
  by (simp add: dispatch_tags_def InodeItemKey_def InodeRefKey_def XAttrItemKey_def
      DirItemKey_def DirIndexKey_def ExtentDataKey_def ExtentCSumKey_def RootItemKey_def
      RootBackRefKey_def RootRefKey_def ExtentItemKey_def BlockGroupItemKey_def)

lemma tag_128_known: "(128 :: 8 word) \<in> set dispatch_tags"
  by (simp add: dispatch_tags_def ExtentCSumKey_def)




text \<open>
  C6. A type tag outside the switch: \<open>ParseData\<close> returns the item and the cursor as they
  are, with no error. In a leaf, the item at index \<open>j\<close> of the result is built from the
  descriptor \<open>d\<close> that the first loop read 25 * j bytes after the cursor's entry
  position, which has no payload. If the tag of \<open>d\<close> is outside the switch the item is \<open>d\<close>
  itself: key, offset and size as decoded, payload absent. Otherwise it is \<open>d\<close> decoded at its
  own seek target, whatever the tags of the other items are.
\<close>

theorem unknown_tag_leaves_item_unparsed:
  assumes "Header_NrItems (Leaf_Header l) \<noteq> 0"
    and "j < length (Leaf_Items (fst (Leaf_Parse l b)))"
  shows "(Key_Type (Item_Key i) \<notin> set dispatch_tags \<longrightarrow> Item_ParseData i c = (i, c)) \<and>
    (let d = fst (Item_Parse zero_Item (advanced b (25 * j))) in
       Item_Data d = None \<and>
       Leaf_Items (fst (Leaf_Parse l b)) ! j =
         (if Key_Type (Item_Key d) \<in> set dispatch_tags
          then fst (Item_ParseData d
                 (SetOffset (unat ((of_nat (Offset b) :: 32 word) + Item_Offset d)) b))
          else d))"
proof -
  let ?n = "min (unat (Header_NrItems (Leaf_Header l))) ((Unread b div 25) mod 2 ^ 32)"
  let ?d = "fst (Item_Parse zero_Item (advanced b (25 * j)))"
  have j: "j < ?n"
    using assms by (simp add: Leaf_Parse_length)
  have "Leaf_Items (fst (Leaf_Parse l b)) ! j =
      fst (Item_ParseData ?d (SetOffset (unat ((of_nat (Offset b) :: 32 word) + Item_Offset ?d)) b))"
    unfolding Leaf_Parse_items [OF assms(1)] using j by simp
  moreover have "Key_Type (Item_Key ?d) \<notin> set dispatch_tags \<Longrightarrow>
      fst (Item_ParseData ?d (SetOffset (unat ((of_nat (Offset b) :: 32 word) + Item_Offset ?d)) b)) = ?d"
    by (simp add: Item_ParseData_unknown)
  ultimately show ?thesis
    by (simp add: Let_def Item_Parse_zero_Data Item_ParseData_unknown)
qed

theorem unknown_tag_leaves_item_unparsed_witness:
  "Header_NrItems (Leaf_Header two_item_leaf) \<noteq> 0 \<and>
   0 < length (Leaf_Items (fst (Leaf_Parse two_item_leaf two_item_cursor))) \<and>
   (13 :: 8 word) \<notin> set dispatch_tags \<and>
   Leaf_Items (fst (Leaf_Parse two_item_leaf two_item_cursor)) ! 0 =
     \<lparr>Item_Key = \<lparr>Key_ObjectId = 0, Key_Type = 13, Key_Offset = 0\<rparr>,
      Item_Offset = 50, Item_Size = 1, Item_Data = None\<rparr> \<and>
   Leaf_Items (fst (Leaf_Parse two_item_leaf two_item_cursor)) ! 1 =
     \<lparr>Item_Key = \<lparr>Key_ObjectId = 0, Key_Type = 128, Key_Offset = 0\<rparr>,
      Item_Offset = 50, Item_Size = 1,
      Item_Data = Some (Data_CSumItem \<lparr>CSumItem_CSum = 9\<rparr>)\<rparr>"
proof -
  have o: "Header_NrItems (Leaf_Header two_item_leaf) \<noteq> 0"
    by (simp add: two_item_leaf_def)
  have len: "length (Leaf_Items (fst (Leaf_Parse two_item_leaf two_item_cursor))) = 2"
    by (simp add: Leaf_Parse_length two_item_leaf_def Unread_def two_item_cursor_def)
  have j0: "0 < length (Leaf_Items (fst (Leaf_Parse two_item_leaf two_item_cursor)))"
    and j1: "1 < length (Leaf_Items (fst (Leaf_Parse two_item_leaf two_item_cursor)))"
    by (simp_all add: len)
  have p: "peek (SetOffset 50 two_item_cursor) 0 (Suc 0) = [9]"
    by (simp add: peek_def SetOffset_def two_item_cursor_def)
  have off: "Offset two_item_cursor = 0"
    by (simp add: Offset_def two_item_cursor_def)
  have "Leaf_Items (fst (Leaf_Parse two_item_leaf two_item_cursor)) ! 0 =
      \<lparr>Item_Key = \<lparr>Key_ObjectId = 0, Key_Type = 13, Key_Offset = 0\<rparr>,
       Item_Offset = 50, Item_Size = 1, Item_Data = None\<rparr>"
    using unknown_tag_leaves_item_unparsed [OF o j0]
    by (simp add: Let_def two_item_descriptors tag_13_unknown)
  moreover have "Leaf_Items (fst (Leaf_Parse two_item_leaf two_item_cursor)) ! 1 =
      \<lparr>Item_Key = \<lparr>Key_ObjectId = 0, Key_Type = 128, Key_Offset = 0\<rparr>,
       Item_Offset = 50, Item_Size = 1,
       Item_Data = Some (Data_CSumItem \<lparr>CSumItem_CSum = 9\<rparr>)\<rparr>"
    using unknown_tag_leaves_item_unparsed [OF o j1]
    by (simp add: Let_def two_item_descriptors tag_128_known off Item_ParseData_CSum p)
  ultimately show ?thesis
    using o j0 tag_13_unknown by simp
qed

text \<open>
  C10. The seek target is a sum of two \<open>uint32\<close>: the header end, which is the cursor's
  position on entry converted to \<open>uint32\<close>, and the item's data offset. Every payload is
  decoded at that sum modulo \<open>2 ^ 32\<close>. In \<open>wrap_cursor\<close> the header ends at 101 and the data
  offset is \<open>0xFFFFFFFF\<close>: the exact sum is \<open>2 ^ 32 + 100\<close>, the cursor is set to 100, inside the
  slice of 126 bytes, and the payload byte is the 7 found there; the cursor ends at 101.
\<close>

theorem payload_seek_wraps_at_32_bits:
  "fst (parse_items_data (of_nat (Offset c)) items b) =
     map (\<lambda>it. fst (Item_ParseData it
                  (SetOffset ((Offset c + unat (Item_Offset it)) mod 2 ^ 32) b))) items \<and>
   Offset wrap_cursor = 101 \<and>
   length (buf wrap_cursor) = 126 \<and>
   Offset wrap_cursor + unat (0xFFFFFFFF :: 32 word) = 2 ^ 32 + 100 \<and>
   Leaf_Parse one_item_leaf wrap_cursor =
     (one_item_leaf\<lparr>Leaf_Items :=
        [\<lparr>Item_Key = \<lparr>Key_ObjectId = 0, Key_Type = 128, Key_Offset = 0\<rparr>,
          Item_Offset = 0xFFFFFFFF, Item_Size = 1,
          Item_Data = Some (Data_CSumItem \<lparr>CSumItem_CSum = 7\<rparr>)\<rparr>]\<rparr>,
      SetOffset 101 wrap_cursor)"
proof -
  have g: "fst (parse_items_data (of_nat (Offset c)) items b) =
     map (\<lambda>it. fst (Item_ParseData it
                  (SetOffset ((Offset c + unat (Item_Offset it)) mod 2 ^ 32) b))) items"
    by (simp only: parse_items_data_map seek_target)
  have o: "Header_NrItems (Leaf_Header one_item_leaf) \<noteq> 0"
    by (simp add: one_item_leaf_def)
  have n: "min (unat (Header_NrItems (Leaf_Header one_item_leaf)))
      ((Unread wrap_cursor div 25) mod 2 ^ 32) = 1"
    by (simp add: one_item_leaf_def Unread_def wrap_cursor_def)
  have off: "Offset wrap_cursor = 101"
    by (simp add: Offset_def wrap_cursor_def)
  have len: "length (buf wrap_cursor) = 126"
    by (simp add: wrap_cursor_def)
  have w: "unat ((101 :: 32 word) + 0xFFFFFFFF) = 100"
    by simp
  have t: "SetOffset 100 (advanced wrap_cursor 25) = SetOffset 100 wrap_cursor"
    by (rule SetOffset_same_buf) (rule buf_advanced)
  have p: "peek (SetOffset 100 wrap_cursor) 0 (Suc 0) = [7]"
    by (simp add: peek_def SetOffset_def wrap_cursor_def)
  have a: "advanced (SetOffset 100 wrap_cursor) (Suc 0) = SetOffset 101 wrap_cursor"
    by (simp add: advanced_def SetOffset_def Unread_def wrap_cursor_def)
  have "Leaf_Parse one_item_leaf wrap_cursor =
      (let r = parse_items_data (of_nat (Offset wrap_cursor))
                 [fst (Item_Parse zero_Item (advanced wrap_cursor 0))] (advanced wrap_cursor 25)
       in (one_item_leaf\<lparr>Leaf_Items := fst r\<rparr>, snd r))"
    using Leaf_Parse_unfold [OF o, of wrap_cursor, unfolded n] by (simp add: Let_def)
  also have "\<dots> =
     (one_item_leaf\<lparr>Leaf_Items :=
        [\<lparr>Item_Key = \<lparr>Key_ObjectId = 0, Key_Type = 128, Key_Offset = 0\<rparr>,
          Item_Offset = 0xFFFFFFFF, Item_Size = 1,
          Item_Data = Some (Data_CSumItem \<lparr>CSumItem_CSum = 7\<rparr>)\<rparr>]\<rparr>,
      SetOffset 101 wrap_cursor)"
    unfolding wrap_descriptor off
    by (simp add: Let_def w t Item_ParseData_CSum p a)
  finally show ?thesis
    using g off len by simp
qed

end
